theory Spec2Isabelle
  imports Complex_Main "HOL-Library.Log_Nat"
begin

section \<open>Arithmetic of the source\<close>

text \<open>
  The source computes on C++ \<^verbatim>\<open>float\<close> and \<^verbatim>\<open>int\<close>.

  A \<^verbatim>\<open>float\<close> value is modelled as a real number, and every floating-point operation
  rounds its exact result with a rounding function \<open>rnd\<close> that all functions below take as
  their first argument. Two roundings are used: \<open>exact\<close> (no rounding: exact real
  arithmetic) and \<open>float32\<close> (round to nearest, ties to even, 24 significant bits, as IEEE
  754 binary32 does in its normal range). NaN, infinities, subnormal numbers and overflow
  are outside the model. Literals that binary32 represents exactly (0.5, 1, 2, 31, k/16,
  k/64) are written as they are; the others (0.6f, 0.4f, 0.1f, 0.02f, 0.05f) are rounded.

  An \<^verbatim>\<open>int\<close> is modelled as a mathematical integer (the parameter \<^verbatim>\<open>size\<close> is written
  \<open>size_n\<close>, the local \<^verbatim>\<open>range\<close> is written \<open>range_val\<close>); the places where the C++ operation is
  undefined (division by zero, overflow of the loop counter of
  \<^verbatim>\<open>bitnet_enhance_resolution_dithering\<close>, an access outside the buffer) are error results.
\<close>

type_synonym rounding = "real \<Rightarrow> real"

definition exact :: rounding where
  "exact x = x"

definition ilog2 :: "real \<Rightarrow> int" where
  \<comment> \<open>\<open>\<lfloor>log\<^sub>2 a\<rfloor>\<close> for \<open>0 < a\<close>, computed on bit lengths\<close>
  "ilog2 a = (if 1 \<le> a then int (floorlog 2 (nat \<lfloor>a\<rfloor>)) - 1
              else - int (floorlog 2 (nat (\<lceil>1 / a\<rceil> - 1))))"

definition round_ties_even :: "real \<Rightarrow> int" where
  "round_ties_even q = (let n = \<lfloor>q\<rfloor>; r = q - of_int n in
      if r < 1 / 2 then n else if 1 / 2 < r then n + 1 else if even n then n else n + 1)"

definition pow2 :: "int \<Rightarrow> real" where
  "pow2 e = (if 0 \<le> e then 2 ^ nat e else 1 / 2 ^ nat (- e))"

definition float32 :: rounding where
  "float32 x = (if x = 0 then 0 else
      let u = pow2 (ilog2 \<bar>x\<bar> - 23) in of_int (round_ties_even (x / u)) * u)"

definition INT_MAX :: int where
  "INT_MAX = 2147483647"

definition INT_MIN :: int where
  "INT_MIN = - 2147483648"

definition c_div :: "int \<Rightarrow> int \<Rightarrow> int" where
  \<comment> \<open>C++ \<^verbatim>\<open>/\<close> on \<^verbatim>\<open>int\<close>: the quotient truncated towards zero (divisor not 0)\<close>
  "c_div a b = sgn a * sgn b * (\<bar>a\<bar> div \<bar>b\<bar>)"

definition c_mod :: "int \<Rightarrow> int \<Rightarrow> int" where
  \<comment> \<open>C++ \<^verbatim>\<open>%\<close> on \<^verbatim>\<open>int\<close>: the remainder of the truncated quotient\<close>
  "c_mod a b = a - c_div a b * b"

definition trunc_int :: "real \<Rightarrow> int" where
  \<comment> \<open>\<^verbatim>\<open>static_cast<int>\<close> of a float: truncation towards zero\<close>
  "trunc_int x = (if 0 \<le> x then \<lfloor>x\<rfloor> else \<lceil>x\<rceil>)"

section \<open>Memory\<close>

text \<open>
  A \<^verbatim>\<open>float *\<close> argument is modelled as the list of the floats from the pointer to the end
  of the object it points into. Reading or writing element \<open>i\<close> of it is defined for
  \<open>0 \<le> i < length\<close> only, and \<^verbatim>\<open>&p[i]\<close> for \<open>0 \<le> i \<le> length\<close> only; everything else is the
  error \<open>OutOfBounds\<close>. A function that mutates the buffer returns the new list.
\<close>

datatype error = OutOfBounds | DivisionByZero | SignedOverflow

definition rd :: "real list \<Rightarrow> int \<Rightarrow> error + real" where
  "rd p i = (if 0 \<le> i \<and> i < int (length p) then Inr (p ! nat i) else Inl OutOfBounds)"

definition ptr_add :: "real list \<Rightarrow> int \<Rightarrow> error + real list" where
  "ptr_add p i = (if 0 \<le> i \<and> i \<le> int (length p) then Inr (drop (nat i) p) else Inl OutOfBounds)"

section \<open>Data model and engine state\<close>

record BitNetDitheringConfig =
  enable_dithering :: bool
  dithering_strength :: real
  bayer_matrix_size :: int
  adaptive_strength :: bool
  resolution_enhancement :: bool

record BitNetDitheringMetrics =
  inference_speed_ratio :: real
  quality_improvement_ratio :: real
  memory_overhead :: real
  perplexity_improvement :: real

text \<open>The three file-level variables of \<^verbatim>\<open>bitnet_dithering.cpp\<close>.\<close>

record globals =
  g_dithering_config :: BitNetDitheringConfig
  g_dithering_metrics :: BitNetDitheringMetrics
  g_dithering_initialized :: bool

text \<open>
  The state of the three variables when the program starts: the configuration holds the
  default member initializers of the header, the metrics are zero-initialised, and the
  engine is not initialised.
\<close>

definition startup_globals :: "rounding \<Rightarrow> globals" where
  "startup_globals rnd =
    \<lparr>g_dithering_config =
       \<lparr>enable_dithering = True, dithering_strength = rnd (1 / 10),
        bayer_matrix_size = 4, adaptive_strength = True,
        resolution_enhancement = True\<rparr>,
     g_dithering_metrics =
       \<lparr>inference_speed_ratio = 0, quality_improvement_ratio = 0,
        memory_overhead = 0, perplexity_improvement = 0\<rparr>,
     g_dithering_initialized = False\<rparr>"

definition BAYER_4X4 :: "real list" where
  "BAYER_4X4 =
    [0 / 16, 8 / 16, 2 / 16, 10 / 16,
     12 / 16, 4 / 16, 14 / 16, 6 / 16,
     3 / 16, 11 / 16, 1 / 16, 9 / 16,
     15 / 16, 7 / 16, 13 / 16, 5 / 16]"

definition BAYER_8X8 :: "real list" where
  "BAYER_8X8 =
    [0 / 64, 32 / 64, 8 / 64, 40 / 64, 2 / 64, 34 / 64, 10 / 64, 42 / 64,
     48 / 64, 16 / 64, 56 / 64, 24 / 64, 50 / 64, 18 / 64, 58 / 64, 26 / 64,
     12 / 64, 44 / 64, 4 / 64, 36 / 64, 14 / 64, 46 / 64, 6 / 64, 38 / 64,
     60 / 64, 28 / 64, 52 / 64, 20 / 64, 62 / 64, 30 / 64, 54 / 64, 22 / 64,
     3 / 64, 35 / 64, 11 / 64, 43 / 64, 1 / 64, 33 / 64, 9 / 64, 41 / 64,
     49 / 64, 17 / 64, 57 / 64, 25 / 64, 51 / 64, 19 / 64, 59 / 64, 27 / 64,
     15 / 64, 47 / 64, 7 / 64, 39 / 64, 13 / 64, 45 / 64, 5 / 64, 37 / 64,
     63 / 64, 31 / 64, 55 / 64, 23 / 64, 61 / 64, 29 / 64, 53 / 64, 21 / 64]"

section \<open>Lifecycle and configuration\<close>

definition bitnet_dithering_init :: "rounding \<Rightarrow> globals \<Rightarrow> globals" where
  "bitnet_dithering_init rnd g =
    (if g_dithering_initialized g then g
     else g\<lparr>g_dithering_config :=
               \<lparr>enable_dithering = True, dithering_strength = rnd (1 / 10),
                bayer_matrix_size = 4, adaptive_strength = True,
                resolution_enhancement = True\<rparr>,
            g_dithering_metrics :=
               \<lparr>inference_speed_ratio = 1, quality_improvement_ratio = 0,
                memory_overhead = 0, perplexity_improvement = 0\<rparr>,
            g_dithering_initialized := True\<rparr>)"

definition bitnet_dithering_cleanup :: "globals \<Rightarrow> globals" where
  "bitnet_dithering_cleanup g = g\<lparr>g_dithering_initialized := False\<rparr>"

definition bitnet_set_dithering_config :: "globals \<Rightarrow> BitNetDitheringConfig option \<Rightarrow> globals" where
  "bitnet_set_dithering_config g config =
    (case config of None \<Rightarrow> g | Some c \<Rightarrow> g\<lparr>g_dithering_config := c\<rparr>)"

definition bitnet_get_dithering_config :: "globals \<Rightarrow> BitNetDitheringConfig \<times> globals" where
  "bitnet_get_dithering_config g = (g_dithering_config g, g)"

definition bitnet_get_dithering_metrics :: "globals \<Rightarrow> BitNetDitheringMetrics \<times> globals" where
  "bitnet_get_dithering_metrics g = (g_dithering_metrics g, g)"

section \<open>Content complexity\<close>

text \<open>
  The loops of \<^verbatim>\<open>bitnet_calculate_content_complexity\<close> all run over \<open>weights[0 .. size_n)\<close>;
  each is a left fold over these elements. The first loop already reads all of them, so a
  buffer with fewer than \<open>size_n\<close> elements is an out-of-bounds read.
\<close>

definition mean_loop :: "rounding \<Rightarrow> real list \<Rightarrow> real" where
  "mean_loop rnd ws = foldl (\<lambda>mean w. rnd (mean + w)) 0 ws"

definition variance_loop :: "rounding \<Rightarrow> real \<Rightarrow> real list \<Rightarrow> real" where
  "variance_loop rnd mean ws =
     foldl (\<lambda>variance w. let diff = rnd (w - mean) in rnd (variance + rnd (diff * diff))) 0 ws"

definition min_max_loop :: "real list \<Rightarrow> real \<times> real" where
  "min_max_loop ws =
     foldl (\<lambda>(min_val, max_val) w. (min min_val w, max max_val w)) (hd ws, hd ws) (tl ws)"

definition histogram_loop :: "rounding \<Rightarrow> real \<Rightarrow> real \<Rightarrow> real list \<Rightarrow> int list" where
  "histogram_loop rnd min_val range_val ws =
     foldl (\<lambda>histogram w.
              let bin = trunc_int (rnd (rnd (rnd (w - min_val) / range_val) * 31));
                  bin = max 0 (min 31 bin)
              in histogram[nat bin := histogram ! nat bin + 1])
           (replicate 32 0) ws"

definition entropy_loop :: "rounding \<Rightarrow> real \<Rightarrow> int list \<Rightarrow> real" where
  "entropy_loop rnd n histogram =
     foldl (\<lambda>entropy h.
              if 0 < h then let p = rnd (rnd (of_int h) / n) in rnd (entropy - rnd (p * rnd (log 2 p)))
              else entropy)
           0 histogram"

definition bitnet_calculate_content_complexity :: "rounding \<Rightarrow> real list \<Rightarrow> int \<Rightarrow> error + real" where
  "bitnet_calculate_content_complexity rnd weights size_n =
    (if size_n \<le> 0 then Inr 0
     else if int (length weights) < size_n then Inl OutOfBounds
     else
       let ws = take (nat size_n) weights;
           n = rnd (of_int size_n);
           mean = rnd (mean_loop rnd ws / n);
           variance = rnd (variance_loop rnd mean ws / n);
           (min_val, max_val) = min_max_loop ws;
           range_val = rnd (max_val - min_val);
           histogram = (if 0 < range_val then histogram_loop rnd min_val range_val ws else replicate 32 0);
           entropy = entropy_loop rnd n histogram
       in Inr (rnd (rnd (variance * rnd (6 / 10)) + rnd (entropy * rnd (4 / 10)))))"

definition bitnet_should_apply_dithering ::
  "rounding \<Rightarrow> globals \<Rightarrow> real list \<Rightarrow> int \<Rightarrow> error + bool \<times> globals" where
  "bitnet_should_apply_dithering rnd g weights size_n =
    (if \<not> g_dithering_initialized g \<or> \<not> enable_dithering (g_dithering_config g)
     then Inr (False, g)
     else case bitnet_calculate_content_complexity rnd weights size_n of
            Inl e \<Rightarrow> Inl e
          | Inr complexity \<Rightarrow> Inr (rnd (2 / 100) < complexity, g))"

definition bitnet_calculate_adaptive_strength ::
  "rounding \<Rightarrow> globals \<Rightarrow> real list \<Rightarrow> int \<Rightarrow> error + real \<times> globals" where
  "bitnet_calculate_adaptive_strength rnd g weights size_n =
    (if \<not> adaptive_strength (g_dithering_config g)
     then Inr (dithering_strength (g_dithering_config g), g)
     else case bitnet_calculate_content_complexity rnd weights size_n of
            Inl e \<Rightarrow> Inl e
          | Inr complexity \<Rightarrow>
              let base_strength = dithering_strength (g_dithering_config g);
                  adaptive_factor = rnd (1 + rnd (rnd (complexity - rnd (1 / 10)) * 2));
                  adaptive_factor = max (1 / 2) (min 2 adaptive_factor)
              in Inr (rnd (base_strength * adaptive_factor), g))"

section \<open>Ordered dithering\<close>

text \<open>
  The loop of \<^verbatim>\<open>bitnet_ordered_dither\<close>, from index \<open>i\<close> on. (The source also computes
  \<^verbatim>\<open>matrix_area\<close>, which it never uses.)
\<close>

function ordered_dither_loop ::
  "rounding \<Rightarrow> real list \<Rightarrow> int \<Rightarrow> real list \<Rightarrow> int \<Rightarrow> real \<Rightarrow> int \<Rightarrow> error + real list" where
  "ordered_dither_loop rnd data size_n bayer_matrix matrix_size strength i =
    (if i < size_n then
       if matrix_size = 0 then Inl DivisionByZero
       else
         let row = c_mod (c_div i matrix_size) matrix_size;
             col = c_mod i matrix_size;
             bayer_idx = row * matrix_size + col
         in (case rd bayer_matrix bayer_idx of
               Inl e \<Rightarrow> Inl e
             | Inr t \<Rightarrow>
                 (case rd data i of
                    Inl e \<Rightarrow> Inl e
                  | Inr d \<Rightarrow>
                      let noise = rnd (rnd (t - 1 / 2) * strength)
                      in ordered_dither_loop rnd (data[nat i := rnd (d + noise)]) size_n
                           bayer_matrix matrix_size strength (i + 1)))
     else Inr data)"
  by pat_completeness auto
termination
  by (relation "measure (\<lambda>(rnd, data, size_n, bayer_matrix, matrix_size, strength, i). nat (size_n - i))")
     auto

declare ordered_dither_loop.simps [simp del]

definition bitnet_ordered_dither ::
  "rounding \<Rightarrow> real list \<Rightarrow> int \<Rightarrow> real list \<Rightarrow> int \<Rightarrow> real \<Rightarrow> error + real list" where
  "bitnet_ordered_dither rnd data size_n bayer_matrix matrix_size strength =
     ordered_dither_loop rnd data size_n bayer_matrix matrix_size strength 0"

text \<open>A null \<^verbatim>\<open>config\<close> pointer is \<open>None\<close>. The argument \<open>layer_idx\<close> is not used.\<close>

definition bitnet_apply_ordered_dithering ::
  "rounding \<Rightarrow> globals \<Rightarrow> real list \<Rightarrow> int \<Rightarrow> int \<Rightarrow> BitNetDitheringConfig option
     \<Rightarrow> error + real list \<times> globals" where
  "bitnet_apply_ordered_dithering rnd g weights size_n layer_idx config =
    (case config of
       None \<Rightarrow> Inr (weights, g)
     | Some c \<Rightarrow>
         if \<not> enable_dithering c then Inr (weights, g)
         else
           case (if adaptive_strength c then bitnet_calculate_adaptive_strength rnd g weights size_n
                 else Inr (dithering_strength c, g)) of
             Inl e \<Rightarrow> Inl e
           | Inr (strength, g') \<Rightarrow>
               let (bayer_matrix, matrix_size) =
                     (if bayer_matrix_size c = 8 then (BAYER_8X8, 8) else (BAYER_4X4, 4))
               in (case bitnet_ordered_dither rnd weights size_n bayer_matrix matrix_size strength of
                     Inl e \<Rightarrow> Inl e
                   | Inr weights' \<Rightarrow> Inr (weights', g')))"

definition bitnet_apply_resolution_dithering ::
  "rounding \<Rightarrow> globals \<Rightarrow> real list \<Rightarrow> int \<Rightarrow> int \<Rightarrow> real \<Rightarrow> error + real list \<times> globals" where
  "bitnet_apply_resolution_dithering rnd g weights size_n layer_idx scale =
    (if \<not> g_dithering_initialized g \<or> \<not> resolution_enhancement (g_dithering_config g)
     then Inr (weights, g)
     else
       let config = (g_dithering_config g)\<lparr>dithering_strength := scale, bayer_matrix_size := 8\<rparr>
       in bitnet_apply_ordered_dithering rnd g weights size_n layer_idx (Some config))"

section \<open>Layer strategy\<close>

text \<open>
  The loop of the attention branch of \<^verbatim>\<open>bitnet_enhance_resolution_dithering\<close>, from index \<open>i\<close>
  on. With a stride of 0 it would not end, so it is a partial function: \<open>None\<close> stands for a
  call that does not return.
\<close>

partial_function (option) enhance_loop ::
  "rounding \<Rightarrow> globals \<Rightarrow> real list \<Rightarrow> int \<Rightarrow> int \<Rightarrow> BitNetDitheringConfig \<Rightarrow> int
     \<Rightarrow> (error + real list \<times> globals) option" where
  "enhance_loop rnd g activations size_n elements_per_token config i =
    (if i < size_n then
       case ptr_add activations i of
         Inl e \<Rightarrow> Some (Inl e)
       | Inr segment \<Rightarrow>
           (case bitnet_apply_ordered_dithering rnd g segment elements_per_token 0 (Some config) of
              Inl e \<Rightarrow> Some (Inl e)
            | Inr (segment', g') \<Rightarrow>
                if i + elements_per_token < INT_MIN \<or> INT_MAX < i + elements_per_token
                then Some (Inl SignedOverflow)
                else enhance_loop rnd g' (take (nat i) activations @ segment') size_n
                       elements_per_token config (i + elements_per_token))
     else Some (Inr (activations, g)))"

definition bitnet_enhance_resolution_dithering ::
  "rounding \<Rightarrow> globals \<Rightarrow> real list \<Rightarrow> int \<Rightarrow> int \<Rightarrow> int \<Rightarrow> (error + real list \<times> globals) option" where
  "bitnet_enhance_resolution_dithering rnd g activations size_n sequence_length hidden_size =
    (if \<not> g_dithering_initialized g \<or> \<not> resolution_enhancement (g_dithering_config g)
     then Some (Inr (activations, g))
     else
       let elements_per_token = hidden_size
       in if elements_per_token = 0 then Some (Inl DivisionByZero)
          else if size_n = INT_MIN \<and> elements_per_token = - 1 then Some (Inl SignedOverflow)
          else
            let total_tokens = c_div size_n elements_per_token
            in if total_tokens = sequence_length then
                 let config = (g_dithering_config g)
                                \<lparr>dithering_strength := rnd (5 / 100), bayer_matrix_size := 8\<rparr>
                 in enhance_loop rnd g activations size_n elements_per_token config 0
               else Some (bitnet_apply_ordered_dithering rnd g activations size_n 0
                            (Some (g_dithering_config g))))"

section \<open>Specification functions\<close>

text \<open>
  The functions of this section are not in the source: they are the vocabulary in which
  the properties below are stated. \<open>buffer_mean\<close> is the arithmetic mean of a buffer.
  \<open>dithered_value\<close> is the value that ordered dithering with pattern \<open>B\<close> of side \<open>ps\<close>
  and strength \<open>s\<close> leaves at index \<open>j\<close>, and \<open>segment_dithered\<close> is that value when every
  segment of \<open>h\<close> elements is dithered on its own with the 8x8 pattern, the pattern index
  starting at 0 in each segment.
\<close>

definition buffer_mean :: "real list \<Rightarrow> real" where
  "buffer_mean xs = sum_list xs / real (length xs)"

definition dithered_value ::
  "rounding \<Rightarrow> real list \<Rightarrow> nat \<Rightarrow> real \<Rightarrow> real list \<Rightarrow> nat \<Rightarrow> real" where
  "dithered_value rnd B ps s data j =
     rnd (data ! j + rnd (rnd (B ! (j mod (ps * ps)) - 1 / 2) * s))"

definition segment_dithered :: "rounding \<Rightarrow> nat \<Rightarrow> real \<Rightarrow> real list \<Rightarrow> nat \<Rightarrow> real" where
  "segment_dithered rnd h s activations j =
     rnd (activations ! j + rnd (rnd (BAYER_8X8 ! (j mod h mod 64) - 1 / 2) * s))"

text \<open>Engine states and a configuration used in the concrete scenarios.\<close>

definition default_engine :: "rounding \<Rightarrow> globals" where
  \<comment> \<open>the engine right after \<^verbatim>\<open>bitnet_dithering_init()\<close> at program start\<close>
  "default_engine rnd = bitnet_dithering_init rnd (startup_globals rnd)"

definition scenario_config :: "bool \<Rightarrow> BitNetDitheringConfig" where
  \<comment> \<open>\<^verbatim>\<open>{enabled:true, strength:1.0, patternSize:4, adaptiveStrength:false}\<close>\<close>
  "scenario_config re =
     \<lparr>enable_dithering = True, dithering_strength = 1, bayer_matrix_size = 4,
      adaptive_strength = False, resolution_enhancement = re\<rparr>"

definition fixed_strength_engine :: "rounding \<Rightarrow> globals" where
  \<comment> \<open>the initialised engine after \<^verbatim>\<open>bitnet_set_dithering_config\<close> with a non-adaptive configuration\<close>
  "fixed_strength_engine rnd =
     bitnet_set_dithering_config (default_engine rnd) (Some (scenario_config True))"

definition disabled_engine :: "rounding \<Rightarrow> globals" where
  \<comment> \<open>the initialised engine after \<^verbatim>\<open>bitnet_set_dithering_config\<close> with dithering switched off\<close>
  "disabled_engine rnd =
     bitnet_set_dithering_config (default_engine rnd)
       (Some ((g_dithering_config (default_engine rnd))\<lparr>enable_dithering := False\<rparr>))"

section \<open>Evaluation of concrete calls\<close>

lemma entropy_loop_zero: "entropy_loop rnd n (replicate k 0) = 0"
  by (induction k) (simp_all add: entropy_loop_def)

lemmas float32_eval = float32_def ilog2_def round_ties_even_def pow2_def compute_floorlog

lemmas engine_eval = bitnet_apply_ordered_dithering_def bitnet_ordered_dither_def
  bitnet_apply_resolution_dithering_def bitnet_enhance_resolution_dithering_def
  bitnet_calculate_adaptive_strength_def bitnet_calculate_content_complexity_def
  bitnet_should_apply_dithering_def bitnet_dithering_init_def startup_globals_def
  default_engine_def scenario_config_def
  mean_loop_def variance_loop_def min_max_loop_def histogram_loop_def entropy_loop_zero
  ordered_dither_loop.simps enhance_loop.simps rd_def ptr_add_def c_div_def c_mod_def
  INT_MAX_def INT_MIN_def trunc_int_def BAYER_4X4_def BAYER_8X8_def Let_def

section \<open>The configured entry point\<close>

text \<open>
  Claim C1. For the buffer \<open>[1, 1, 1, 1]\<close> of size 4 and a configuration with dithering
  enabled, strength 1, pattern size 4 and no adaptive strength,
  \<^verbatim>\<open>bitnet_apply_ordered_dithering\<close> turns the buffer into \<open>[0.5, 1, 0.625, 1.125]\<close>: element
  \<open>i\<close> receives \<open>(BAYER_4X4[i] - 0.5) * 1\<close>. This holds in exact arithmetic and in binary32
  arithmetic, in every engine state and for every layer index.
\<close>

theorem C1_scenario_4x4:
  "bitnet_apply_ordered_dithering exact g [1, 1, 1, 1] 4 layer_idx (Some (scenario_config re))
     = Inr ([1 / 2, 1, 5 / 8, 9 / 8], g)
   \<and> bitnet_apply_ordered_dithering float32 g [1, 1, 1, 1] 4 layer_idx (Some (scenario_config re))
     = Inr ([1 / 2, 1, 5 / 8, 9 / 8], g)"
proof
  show "bitnet_apply_ordered_dithering exact g [1, 1, 1, 1] 4 layer_idx (Some (scenario_config re))
     = Inr ([1 / 2, 1, 5 / 8, 9 / 8], g)"
    by (simp add: engine_eval exact_def)
  show "bitnet_apply_ordered_dithering float32 g [1, 1, 1, 1] 4 layer_idx (Some (scenario_config re))
     = Inr ([1 / 2, 1, 5 / 8, 9 / 8], g)"
    by (simp add: engine_eval float32_eval)
qed

text \<open>
  Claim C9. With a null configuration pointer, or with a configuration whose
  \<open>enable_dithering\<close> is false, \<^verbatim>\<open>bitnet_apply_ordered_dithering\<close> returns the buffer as it
  was, for every buffer, size and layer index (and every rounding and engine state).
\<close>

theorem C9_null_or_disabled_config_is_noop:
  "config = None \<or> (\<exists>c. config = Some c \<and> \<not> enable_dithering c) \<Longrightarrow>
   bitnet_apply_ordered_dithering rnd g weights size_n layer_idx config = Inr (weights, g)"
  by (auto simp: bitnet_apply_ordered_dithering_def)

theorem C9_witness:
  "(Some ((scenario_config True)\<lparr>enable_dithering := False\<rparr>) = None
      \<or> (\<exists>c. Some ((scenario_config True)\<lparr>enable_dithering := False\<rparr>) = Some c
             \<and> \<not> enable_dithering c))
   \<and> bitnet_apply_ordered_dithering float32 (default_engine float32) [1, 2, 3] 3 7
         (Some ((scenario_config True)\<lparr>enable_dithering := False\<rparr>))
       = Inr ([1, 2, 3], default_engine float32)"
proof -
  have h: "Some ((scenario_config True)\<lparr>enable_dithering := False\<rparr>) = None
      \<or> (\<exists>c. Some ((scenario_config True)\<lparr>enable_dithering := False\<rparr>) = Some c
             \<and> \<not> enable_dithering c)"
    by simp
  show ?thesis
    using h C9_null_or_disabled_config_is_noop [OF h, of float32 "default_engine float32" "[1, 2, 3]" 3 7]
    by simp
qed

section \<open>The initialised flag\<close>




section \<open>The dithering loop\<close>

lemma c_div_nonneg: "0 \<le> a \<Longrightarrow> 0 < b \<Longrightarrow> c_div a b = a div b"
  by (cases "a = 0") (simp_all add: c_div_def)

lemma c_mod_nonneg: "0 \<le> a \<Longrightarrow> 0 < b \<Longrightarrow> c_mod a b = a mod b"
  by (simp add: c_mod_def c_div_nonneg minus_div_mult_eq_mod)

text \<open>The index into the pattern is the buffer index modulo the area of the pattern.\<close>

lemma bayer_idx_eq:
  assumes "0 < ps"
  shows "c_mod (c_div (int i) (int ps)) (int ps) * int ps + c_mod (int i) (int ps)
         = int (i mod (ps * ps))"
proof -
  have "c_mod (c_div (int i) (int ps)) (int ps) * int ps + c_mod (int i) (int ps)
        = int (i div ps mod ps * ps + i mod ps)"
    using assms by (simp add: c_div_nonneg c_mod_nonneg pos_imp_zdiv_nonneg_iff zdiv_int zmod_int)
  also have "i div ps mod ps * ps + i mod ps = i mod (ps * ps)"
    by (simp add: mod_mult2_eq add.commute mult.commute)
  finally show ?thesis .
qed

lemma ordered_dither_loop_step:
  assumes "i < size_n" and "matrix_size \<noteq> 0"
    and "rd bayer_matrix (c_mod (c_div i matrix_size) matrix_size * matrix_size
                            + c_mod i matrix_size) = Inr t"
    and "rd data i = Inr d"
  shows "ordered_dither_loop rnd data size_n bayer_matrix matrix_size strength i
       = ordered_dither_loop rnd (data[nat i := rnd (d + rnd (rnd (t - 1 / 2) * strength))])
           size_n bayer_matrix matrix_size strength (i + 1)"
  using assms
  by (simp add: ordered_dither_loop.simps [of rnd data size_n bayer_matrix matrix_size strength i])

text \<open>
  What the loop computes when the pattern has \<open>ps * ps\<close> entries and the buffer holds at
  least \<open>n\<close> elements: the first \<open>n\<close> elements are dithered, the rest is untouched.
\<close>

lemma ordered_dither_loop_eq:
  assumes "0 < ps" and "length B = ps * ps"
  shows "n \<le> length data \<Longrightarrow> i \<le> n \<Longrightarrow>
     ordered_dither_loop rnd data (int n) B (int ps) s (int i)
       = Inr (take i data @ map (dithered_value rnd B ps s data) [i..<n] @ drop n data)"
proof (induction "n - i" arbitrary: data i)
  case 0
  then show ?case by (simp add: ordered_dither_loop.simps [of _ data])
next
  case (Suc k)
  then have lt: "i < n" "i < length data" by simp_all
  let ?d = "data[i := dithered_value rnd B ps s data i]"
  have idx: "rd B (c_mod (c_div (int i) (int ps)) (int ps) * int ps + c_mod (int i) (int ps))
             = Inr (B ! (i mod (ps * ps)))"
  proof -
    have "i mod (ps * ps) < length B" using assms by simp
    then show ?thesis
      unfolding bayer_idx_eq [OF assms(1)] rd_def by simp
  qed
  have di: "rd data (int i) = Inr (data ! i)"
    using lt by (simp add: rd_def)
  have "ordered_dither_loop rnd data (int n) B (int ps) s (int i)
        = ordered_dither_loop rnd ?d (int n) B (int ps) s (int i + 1)"
    using ordered_dither_loop_step [OF _ _ idx di, of "int n" rnd s] lt assms(1)
    by (simp add: dithered_value_def)
  then have step: "ordered_dither_loop rnd data (int n) B (int ps) s (int i)
        = ordered_dither_loop rnd ?d (int n) B (int ps) s (int (Suc i))"
    by (simp add: add.commute)
  have ih: "ordered_dither_loop rnd ?d (int n) B (int ps) s (int (Suc i))
        = Inr (take (Suc i) ?d @ map (dithered_value rnd B ps s ?d) [Suc i..<n] @ drop n ?d)"
    using Suc.hyps(2) Suc.prems lt by (intro Suc.hyps(1)) simp_all
  have m: "map (dithered_value rnd B ps s ?d) [Suc i..<n]
         = map (dithered_value rnd B ps s data) [Suc i..<n]"
    by (simp add: dithered_value_def)
  have t: "take (Suc i) ?d = take i data @ [dithered_value rnd B ps s data i]"
    using lt by (simp add: take_Suc_conv_app_nth)
  have d: "drop n ?d = drop n data"
    using lt by simp
  show ?case
    unfolding step ih using lt by (simp add: m t d upt_conv_Cons)
qed

lemma bitnet_ordered_dither_eq:
  assumes "0 < ps" and "length B = ps * ps" and "n \<le> length data"
  shows "bitnet_ordered_dither rnd data (int n) B (int ps) s
       = Inr (map (dithered_value rnd B ps s data) [0..<n] @ drop n data)"
  unfolding bitnet_ordered_dither_def
  using ordered_dither_loop_eq [OF assms(1,2,3), of 0 rnd s] by simp

lemma length_BAYER_4X4: "length BAYER_4X4 = 4 * 4"
  by (simp add: BAYER_4X4_def)

lemma length_BAYER_8X8: "length BAYER_8X8 = 8 * 8"
  by (simp add: BAYER_8X8_def)

subsection \<open>The mean of a dithered buffer\<close>

lemma sum_periodic:
  fixes f :: "nat \<Rightarrow> real"
  shows "(\<Sum>j<k * m. f (j mod m)) = real k * (\<Sum>j<m. f j)"
proof (induction k)
  case 0
  then show ?case by simp
next
  case (Suc k)
  have "(\<Sum>j<Suc k * m. f (j mod m))
      = (\<Sum>j<k * m. f (j mod m)) + (\<Sum>j = k * m..<k * m + m. f (j mod m))"
    by (simp add: lessThan_atLeast0 sum.atLeastLessThan_concat add.commute)
  also have "(\<Sum>j = k * m..<k * m + m. f (j mod m)) = (\<Sum>j<m. f j)"
    using sum.shift_bounds_nat_ivl [of "\<lambda>j. f (j mod m)" 0 "k * m" m]
    by (simp add: lessThan_atLeast0 add.commute)
  finally show ?case using Suc.IH by (simp add: algebra_simps)
qed

text \<open>
  The entries of either table are \<open>0/n, 1/n, \<dots>, (n-1)/n\<close>, whose sum is \<open>(n-1)/2\<close>: the
  noise \<open>t - 1/2\<close> sums to \<open>-1/2\<close> over one tile, not to 0.
\<close>

lemma BAYER_4X4_tile_sum: "sum_list (map (\<lambda>t. t - 1 / 2) BAYER_4X4) = - 1 / 2"
  by (simp add: BAYER_4X4_def)

lemma BAYER_8X8_tile_sum: "sum_list (map (\<lambda>t. t - 1 / 2) BAYER_8X8) = - 1 / 2"
  by (simp add: BAYER_8X8_def)

lemma sum_list_dithered:
  assumes "length B = ps * ps" and "length data = k * (ps * ps)"
  shows "sum_list (map (dithered_value exact B ps s data) [0..<length data])
         = sum_list data + real k * sum_list (map (\<lambda>t. t - 1 / 2) B) * s"
proof -
  let ?m = "ps * ps"
  have B: "sum_list (map (\<lambda>t. t - 1 / 2) B) = (\<Sum>j<?m. B ! j - 1 / 2)"
    using assms(1) by (simp add: sum_list_sum_nth lessThan_atLeast0)
  have "sum_list (map (dithered_value exact B ps s data) [0..<length data])
        = (\<Sum>j<length data. data ! j + (B ! (j mod ?m) - 1 / 2) * s)"
    by (simp add: sum_list_sum_nth dithered_value_def exact_def lessThan_atLeast0
        interv_sum_list_conv_sum_set_nat)
  also have "\<dots> = (\<Sum>j<length data. data ! j) + (\<Sum>j<k * ?m. B ! (j mod ?m) - 1 / 2) * s"
    by (simp add: sum.distrib sum_distrib_right assms(2))
  also have "(\<Sum>j<length data. data ! j) = sum_list data"
    by (simp add: sum_list_sum_nth lessThan_atLeast0)
  also have "(\<Sum>j<k * ?m. B ! (j mod ?m) - 1 / 2) = real k * (\<Sum>j<?m. B ! j - 1 / 2)"
    by (rule sum_periodic)
  finally show ?thesis by (simp add: B)
qed

text \<open>
  Claim C2, as stated, fails: in exact arithmetic, dithering the 16 zeros of one full 4x4
  tile with strength 1 moves the mean of the buffer from 0 to \<open>-1/32\<close>.
\<close>

theorem C2_counterexample:
  "bitnet_ordered_dither exact (replicate 16 0) 16 BAYER_4X4 4 1
     = Inr [- 1 / 2, 0, - 3 / 8, 1 / 8, 1 / 4, - 1 / 4, 3 / 8, - 1 / 8,
            - 5 / 16, 3 / 16, - 7 / 16, 1 / 16, 7 / 16, - 1 / 16, 5 / 16, - 3 / 16]
   \<and> buffer_mean [- 1 / 2, 0, - 3 / 8, 1 / 8, 1 / 4, - 1 / 4, 3 / 8, - 1 / 8,
            - 5 / 16, 3 / 16, - 7 / 16, 1 / 16, 7 / 16, - 1 / 16, 5 / 16, - 3 / 16] = - 1 / 32
   \<and> buffer_mean (replicate 16 0) = 0
   \<and> sum_list (map (\<lambda>t. t - 1 / 2) BAYER_4X4) \<noteq> 0"
  by (simp add: engine_eval exact_def buffer_mean_def eval_nat_numeral)

text \<open>
  Claim C2, amended. In exact arithmetic, for every buffer whose length is a positive
  multiple of \<open>patternSize\<^sup>2\<close> (pattern size 4 or 8, with the table of that size) and every
  strength, \<^verbatim>\<open>bitnet_ordered_dither\<close> succeeds and lowers the arithmetic mean of the buffer by
  exactly \<open>strength / (2 * patternSize\<^sup>2)\<close>, because the sum of \<open>t - 1/2\<close> over all entries
  \<open>t\<close> of a table is \<open>-1/2\<close>.
\<close>

theorem C2_mean_shift_over_full_tiles:
  assumes "(ps = 4 \<and> B = BAYER_4X4) \<or> (ps = 8 \<and> B = BAYER_8X8)"
    and "length data = k * (ps * ps)" and "0 < k"
  shows "sum_list (map (\<lambda>t. t - 1 / 2) B) = - 1 / 2
       \<and> (\<exists>data'. bitnet_ordered_dither exact data (int (length data)) B (int ps) strength
                     = Inr data'
             \<and> length data' = length data
             \<and> buffer_mean data' = buffer_mean data - strength / (2 * real (ps * ps)))"
proof -
  have len: "length B = ps * ps"
    using assms(1) by (auto simp: BAYER_4X4_def BAYER_8X8_def)
  have ps: "0 < ps" using assms(1) by auto
  have tile: "sum_list (map (\<lambda>t. t - 1 / 2) B) = - 1 / 2"
    using assms(1) BAYER_4X4_tile_sum BAYER_8X8_tile_sum by auto
  let ?d = "map (dithered_value exact B ps strength data) [0..<length data]"
  have run: "bitnet_ordered_dither exact data (int (length data)) B (int ps) strength = Inr ?d"
    using bitnet_ordered_dither_eq [OF ps len, of "length data" data exact strength] by simp
  have "sum_list ?d = sum_list data - real k * strength / 2"
    using sum_list_dithered [OF len assms(2), of strength] by (simp add: tile)
  then have "buffer_mean ?d = buffer_mean data - strength / (2 * real (ps * ps))"
    using assms(2,3) ps by (simp add: buffer_mean_def diff_divide_distrib)
  with run tile show ?thesis by simp
qed

theorem C2_witness:
  "((8 = (4 :: nat) \<and> BAYER_8X8 = BAYER_4X4) \<or> (8 = (8 :: nat) \<and> BAYER_8X8 = BAYER_8X8))
   \<and> length (replicate 128 (1 :: real)) = 2 * (8 * 8) \<and> 0 < (2 :: nat)
   \<and> (\<exists>data'. bitnet_ordered_dither exact (replicate 128 1) 128 BAYER_8X8 8 (1 / 4) = Inr data'
         \<and> length data' = 128
         \<and> buffer_mean data' = buffer_mean (replicate 128 1) - 1 / 512)"
proof -
  have h1: "(8 = (4 :: nat) \<and> BAYER_8X8 = BAYER_4X4) \<or> (8 = (8 :: nat) \<and> BAYER_8X8 = BAYER_8X8)"
    by simp
  have h2: "length (replicate 128 (1 :: real)) = 2 * (8 * 8)"
    by simp
  have h3: "0 < (2 :: nat)"
    by simp
  show ?thesis
    using h1 h2 h3 C2_mean_shift_over_full_tiles [OF h1 h2 h3, of "1 / 4"]
    by simp
qed

section \<open>Content complexity and adaptive strength\<close>






lemma default_engine_enabled:
  "g_dithering_initialized (default_engine rnd)"
  "enable_dithering (g_dithering_config (default_engine rnd))"
  "adaptive_strength (g_dithering_config (default_engine rnd))"
  "resolution_enhancement (g_dithering_config (default_engine rnd))"
  "dithering_strength (g_dithering_config (default_engine rnd)) = rnd (1 / 10)"
  by (simp_all add: default_engine_def bitnet_dithering_init_def startup_globals_def)






text \<open>
  The bounds do not depend on exact arithmetic: they hold for every monotone rounding
  that represents half and twice the base strength.
\<close>

lemma adaptive_strength_bounds_rounded:
  assumes "mono rnd" and "rnd (b / 2) = b / 2" and "rnd (2 * b) = 2 * b" and "0 < b"
    and "dithering_strength (g_dithering_config g) = b"
    and "adaptive_strength (g_dithering_config g)"
    and "bitnet_calculate_adaptive_strength rnd g weights size_n = Inr (r, g')"
  shows "b / 2 \<le> r \<and> r \<le> 2 * b"
proof (cases "bitnet_calculate_content_complexity rnd weights size_n")
  case (Inl e)
  with assms(6,7) show ?thesis
    by (simp add: bitnet_calculate_adaptive_strength_def)
next
  case (Inr complexity)
  let ?f = "max (1 / 2) (min 2 (rnd (1 + rnd (rnd (complexity - rnd (1 / 10)) * 2))))"
  have r: "r = rnd (b * ?f)"
    using assms(5,6,7) Inr by (simp add: bitnet_calculate_adaptive_strength_def Let_def)
  have f: "1 / 2 \<le> ?f" "?f \<le> 2" by simp_all
  have lo: "b / 2 \<le> b * ?f"
    using assms(4) f(1) mult_left_mono [of "1 / 2" ?f b] by simp
  have hi: "b * ?f \<le> 2 * b"
    using assms(4) f(2) mult_left_mono [of ?f 2 b] by (simp add: mult.commute)
  have "rnd (b / 2) \<le> rnd (b * ?f)"
    by (rule monoD [OF assms(1) lo])
  moreover have "rnd (b * ?f) \<le> rnd (2 * b)"
    by (rule monoD [OF assms(1) hi])
  ultimately show ?thesis
    unfolding r assms(2,3) by simp
qed

section \<open>The engine state is only read\<close>

lemma calc_frame:
  "bitnet_calculate_adaptive_strength rnd g weights size_n = Inr (s, g') \<Longrightarrow> g' = g"
  by (auto simp: bitnet_calculate_adaptive_strength_def Let_def split: if_splits sum.splits)

lemma should_frame:
  "bitnet_should_apply_dithering rnd g weights size_n = Inr (b, g') \<Longrightarrow> g' = g"
  by (auto simp: bitnet_should_apply_dithering_def split: if_splits sum.splits)

lemma apply_frame:
  "bitnet_apply_ordered_dithering rnd g weights size_n layer_idx config = Inr (w', g') \<Longrightarrow> g' = g"
  by (auto simp: bitnet_apply_ordered_dithering_def Let_def
      split: option.splits if_splits sum.splits prod.splits dest: calc_frame)

lemma apply_res_frame:
  "bitnet_apply_resolution_dithering rnd g weights size_n layer_idx scale = Inr (w', g') \<Longrightarrow> g' = g"
  by (auto simp: bitnet_apply_resolution_dithering_def Let_def split: if_splits dest: apply_frame)

lemma enhance_loop_frame_aux:
  assumes "enhance_loop rnd g activations size_n elements_per_token config i = Some r"
  shows "\<forall>a' g'. r = Inr (a', g') \<longrightarrow> g' = g"
proof (rule enhance_loop.raw_induct
    [where P = "\<lambda>rnd g activations size_n elements_per_token config i r.
                  \<forall>a' g'. r = Inr (a', g') \<longrightarrow> g' = g", OF _ assms], goal_cases)
  case (1 loop rnd g activations size_n elements_per_token config i r)
  note IH = "1"(1) and eq = "1"(2)
  show ?case
  proof (cases "i < size_n")
    case False
    with eq show ?thesis by auto
  next
    case True
    show ?thesis
    proof (cases "ptr_add activations i")
      case (Inl e)
      with True eq show ?thesis by auto
    next
      case (Inr segment)
      show ?thesis
      proof (cases "bitnet_apply_ordered_dithering rnd g segment elements_per_token 0 (Some config)")
        case (Inl e)
        with True Inr eq show ?thesis by auto
      next
        case inner: (Inr p)
        obtain segment' g1 where p: "p = (segment', g1)" by (cases p)
        have g1: "g1 = g" using inner p by (auto dest: apply_frame)
        show ?thesis
        proof (cases "i + elements_per_token < INT_MIN \<or> INT_MAX < i + elements_per_token")
          case True
          with \<open>i < size_n\<close> Inr inner p eq show ?thesis by auto
        next
          case False
          with \<open>i < size_n\<close> Inr inner p eq
          have "loop rnd g1 (take (nat i) activations @ segment') size_n elements_per_token config
                  (i + elements_per_token) = Some r"
            by simp
          from IH [OF this] g1 show ?thesis by simp
        qed
      qed
    qed
  qed
qed

lemma enhance_frame:
  "bitnet_enhance_resolution_dithering rnd g activations size_n sequence_length hidden_size
     = Some (Inr (a', g')) \<Longrightarrow> g' = g"
  by (auto simp: bitnet_enhance_resolution_dithering_def Let_def split: if_splits
      dest: apply_frame enhance_loop_frame_aux)

text \<open>
  Claim C10. \<^verbatim>\<open>bitnet_apply_ordered_dithering\<close>, \<^verbatim>\<open>bitnet_apply_resolution_dithering\<close>,
  \<^verbatim>\<open>bitnet_enhance_resolution_dithering\<close>, \<^verbatim>\<open>bitnet_should_apply_dithering\<close>,
  \<^verbatim>\<open>bitnet_calculate_adaptive_strength\<close>, \<^verbatim>\<open>bitnet_get_dithering_config\<close> and
  \<^verbatim>\<open>bitnet_get_dithering_metrics\<close> leave the engine state (configuration, metrics,
  initialised flag) as it was, for all arguments: whenever one of them returns, the state
  it returns is the state it was called in.
\<close>

theorem C10_engine_state_unchanged:
  "(bitnet_apply_ordered_dithering rnd g weights size_n layer_idx config = Inr (w1, g1) \<longrightarrow> g1 = g)
   \<and> (bitnet_apply_resolution_dithering rnd g weights size_n layer_idx scale = Inr (w2, g2)
        \<longrightarrow> g2 = g)
   \<and> (bitnet_enhance_resolution_dithering rnd g weights size_n sequence_length hidden_size
          = Some (Inr (w3, g3)) \<longrightarrow> g3 = g)
   \<and> (bitnet_should_apply_dithering rnd g weights size_n = Inr (b, g4) \<longrightarrow> g4 = g)
   \<and> (bitnet_calculate_adaptive_strength rnd g weights size_n = Inr (s, g5) \<longrightarrow> g5 = g)
   \<and> snd (bitnet_get_dithering_config g) = g
   \<and> snd (bitnet_get_dithering_metrics g) = g"
  using apply_frame [of rnd g weights size_n layer_idx config w1 g1]
    apply_res_frame [of rnd g weights size_n layer_idx scale w2 g2]
    enhance_frame [of rnd g weights size_n sequence_length hidden_size w3 g3]
    should_frame [of rnd g weights size_n b g4]
    calc_frame [of rnd g weights size_n s g5]
  by (simp add: bitnet_get_dithering_config_def bitnet_get_dithering_metrics_def)

theorem C10_witness:
  "bitnet_apply_ordered_dithering exact (default_engine exact) [0, 0, 0, 0] 4 0
       (Some (scenario_config True))
     = Inr ([- 1 / 2, 0, - 3 / 8, 1 / 8], default_engine exact)
   \<and> bitnet_apply_resolution_dithering exact (default_engine exact) [0, 0, 0, 0] 4 0 1
     = Inr ([- 1 / 25, 0, - 3 / 100, 1 / 100], default_engine exact)
   \<and> bitnet_enhance_resolution_dithering exact (default_engine exact) [0, 0, 0, 0] 4 2 2
     = Some (Inr ([- 1 / 25, 0, - 1 / 25, 0], default_engine exact))
   \<and> bitnet_should_apply_dithering exact (default_engine exact) [0, 0, 0, 0] 4
     = Inr (False, default_engine exact)
   \<and> bitnet_calculate_adaptive_strength exact (default_engine exact) [0, 0, 0, 0] 4
     = Inr (2 / 25, default_engine exact)
   \<and> snd (bitnet_get_dithering_config (default_engine exact)) = default_engine exact
   \<and> snd (bitnet_get_dithering_metrics (default_engine exact)) = default_engine exact"
proof -
  have h1: "bitnet_apply_ordered_dithering exact (default_engine exact) [0, 0, 0, 0] 4 0
       (Some (scenario_config True))
     = Inr ([- 1 / 2, 0, - 3 / 8, 1 / 8], default_engine exact)"
    by (simp add: engine_eval exact_def)
  have h2: "bitnet_apply_resolution_dithering exact (default_engine exact) [0, 0, 0, 0] 4 0 1
     = Inr ([- 1 / 25, 0, - 3 / 100, 1 / 100], default_engine exact)"
    by (simp add: engine_eval exact_def)
  have h3: "bitnet_enhance_resolution_dithering exact (default_engine exact) [0, 0, 0, 0] 4 2 2
     = Some (Inr ([- 1 / 25, 0, - 1 / 25, 0], default_engine exact))"
    by (simp add: engine_eval exact_def)
  have h4: "bitnet_should_apply_dithering exact (default_engine exact) [0, 0, 0, 0] 4
     = Inr (False, default_engine exact)"
    by (simp add: engine_eval exact_def)
  have h5: "bitnet_calculate_adaptive_strength exact (default_engine exact) [0, 0, 0, 0] 4
     = Inr (2 / 25, default_engine exact)"
    by (simp add: engine_eval exact_def)
  show ?thesis
    using h1 h2 h3 h4 h5
      C10_engine_state_unchanged [of exact "default_engine exact" "[0, 0, 0, 0]" 4 0
        "Some (scenario_config True)" "[- 1 / 2, 0, - 3 / 8, 1 / 8]" "default_engine exact"
        1 "[- 1 / 25, 0, - 3 / 100, 1 / 100]" "default_engine exact"
        2 2 "[- 1 / 25, 0, - 1 / 25, 0]" "default_engine exact"
        False "default_engine exact" "2 / 25" "default_engine exact"]
    by simp
qed

section \<open>Resolution enhancement\<close>

text \<open>
  When the global \<open>adaptive_strength\<close> is set, the strength comes from
  \<^verbatim>\<open>bitnet_calculate_adaptive_strength\<close>, which reads the strength of the global configuration:
  the \<open>scale\<close> argument, stored in the transient configuration, has no effect.
\<close>

lemma scale_ignored:
  assumes "adaptive_strength (g_dithering_config g)"
  shows "bitnet_apply_resolution_dithering rnd g weights size_n layer_idx scale
       = bitnet_apply_resolution_dithering rnd g weights size_n layer_idx scale'"
  using assms
  by (simp add: bitnet_apply_resolution_dithering_def bitnet_apply_ordered_dithering_def Let_def)

text \<open>
  Claim C4 does not hold of the code. With the engine initialised with its defaults
  (strength \<open>0.1\<close>, adaptive strength on), \<^verbatim>\<open>bitnet_apply_resolution_dithering\<close> on
  \<open>[1, 1, 1, 1]\<close> applies the strength \<open>0.1 * 0.8 = 0.08\<close> whatever \<open>scale\<close> is, where the
  claim says \<open>scale * 0.8\<close>: the result is \<open>[0.96, 1, 0.97, 1.01]\<close> in exact arithmetic (and
  the binary32 neighbours of these values in binary32 arithmetic), for every \<open>scale\<close>.
\<close>

theorem C4_scale_is_ignored:
  "bitnet_apply_resolution_dithering exact (default_engine exact) [1, 1, 1, 1] 4 layer_idx scale
     = Inr ([24 / 25, 1, 97 / 100, 101 / 100], default_engine exact)
   \<and> bitnet_apply_resolution_dithering float32 (default_engine float32) [1, 1, 1, 1] 4
        layer_idx scale
     = Inr ([16106127 / 16777216, 1, 4068475 / 4194304, 4236247 / 4194304],
            default_engine float32)"
proof
  show "bitnet_apply_resolution_dithering exact (default_engine exact) [1, 1, 1, 1] 4
          layer_idx scale
     = Inr ([24 / 25, 1, 97 / 100, 101 / 100], default_engine exact)"
    by (simp add: engine_eval exact_def)
  show "bitnet_apply_resolution_dithering float32 (default_engine float32) [1, 1, 1, 1] 4
        layer_idx scale
     = Inr ([16106127 / 16777216, 1, 4068475 / 4194304, 4236247 / 4194304],
            default_engine float32)"
    by (simp add: engine_eval float32_eval)
qed

theorem C4_witness:
  "g_dithering_initialized (default_engine exact)
   \<and> resolution_enhancement (g_dithering_config (default_engine exact))
   \<and> adaptive_strength (g_dithering_config (default_engine exact))
   \<and> bitnet_apply_resolution_dithering exact (default_engine exact) [1, 1, 1, 1] 4 0 1
     = Inr ([24 / 25, 1, 97 / 100, 101 / 100], default_engine exact)
   \<and> bitnet_apply_resolution_dithering float32 (default_engine float32) [1, 1, 1, 1] 4 0 1
     = Inr ([16106127 / 16777216, 1, 4068475 / 4194304, 4236247 / 4194304],
            default_engine float32)"
  using C4_scale_is_ignored [of 0 1] by (simp add: default_engine_enabled)

section \<open>The layer strategy\<close>

text \<open>
  One call of the configured entry point on a segment, with a fixed strength and the 8x8
  pattern, and the whole loop over the segments of a buffer of \<open>k * h\<close> elements, started
  at the \<open>m\<close>-th segment.
\<close>

lemma apply_segment:
  assumes "enable_dithering config" and "\<not> adaptive_strength config"
    and "bayer_matrix_size config = 8" and "h \<le> length segment"
  shows "bitnet_apply_ordered_dithering rnd g segment (int h) layer_idx (Some config)
       = Inr (map (dithered_value rnd BAYER_8X8 8 (dithering_strength config) segment) [0..<h]
                @ drop h segment, g)"
  using assms bitnet_ordered_dither_eq [OF _ length_BAYER_8X8 assms(4), of rnd "dithering_strength config"]
  by (simp add: bitnet_apply_ordered_dithering_def)

lemma segment_map:
  assumes "0 < h" and "m * h + h \<le> length activations"
  shows "map (dithered_value rnd BAYER_8X8 8 s (drop (m * h) activations)) [0..<h]
       = map (segment_dithered rnd h s activations) [m * h..<m * h + h]"
proof (rule nth_equalityI)
  show "length (map (dithered_value rnd BAYER_8X8 8 s (drop (m * h) activations)) [0..<h])
      = length (map (segment_dithered rnd h s activations) [m * h..<m * h + h])"
    by simp
next
  fix j
  assume "j < length (map (dithered_value rnd BAYER_8X8 8 s (drop (m * h) activations)) [0..<h])"
  then have j: "j < h" by simp
  then have "(m * h + j) mod h = j" by simp
  with j assms show "map (dithered_value rnd BAYER_8X8 8 s (drop (m * h) activations)) [0..<h] ! j
      = map (segment_dithered rnd h s activations) [m * h..<m * h + h] ! j"
    by (simp add: dithered_value_def segment_dithered_def)
qed

lemma enhance_loop_eq:
  assumes "enable_dithering config" and "\<not> adaptive_strength config"
    and "bayer_matrix_size config = 8" and "0 < h" and "int (k * h) \<le> INT_MAX"
  shows "length activations = k * h \<Longrightarrow> m \<le> k \<Longrightarrow>
     enhance_loop rnd g activations (int (k * h)) (int h) config (int (m * h))
       = Some (Inr (take (m * h) activations
                      @ map (segment_dithered rnd h (dithering_strength config) activations)
                          [m * h..<k * h], g))"
proof (induction "k - m" arbitrary: activations m)
  case 0
  then have "m = k" by simp
  with 0 show ?case
    by (simp add: enhance_loop.simps [of _ _ activations])
next
  case (Suc d)
  let ?s = "dithering_strength config"
  let ?f = "segment_dithered rnd h ?s"
  let ?seg = "drop (m * h) activations"
  let ?a = "take (m * h) activations @ map (?f activations) [m * h..<m * h + h] @ drop h ?seg"
  from Suc have mk: "m < k" by simp
  then have "Suc m \<le> k" by simp
  then have "Suc m * h \<le> k * h" by (rule mult_le_mono1)
  then have le: "m * h + h \<le> k * h" by (simp add: add.commute)
  have lt: "m * h < k * h" using mk assms(4) by simp
  have seg_len: "h \<le> length ?seg" using le Suc.prems(1) by simp
  have p: "ptr_add activations (int (m * h)) = Inr ?seg"
    using lt Suc.prems(1) by (simp add: ptr_add_def del: of_nat_mult)
  have a: "bitnet_apply_ordered_dithering rnd g ?seg (int h) 0 (Some config)
       = Inr (map (?f activations) [m * h..<m * h + h] @ drop h ?seg, g)"
    using apply_segment [OF assms(1-3) seg_len, of rnd g 0]
      segment_map [OF assms(4), of m activations rnd ?s] le Suc.prems(1) by simp
  have ov: "\<not> (int (m * h) + int h < INT_MIN \<or> INT_MAX < int (m * h) + int h)"
    using le assms(5) by (simp add: INT_MIN_def del: of_nat_mult of_nat_add flip: of_nat_add)
  have step: "enhance_loop rnd g activations (int (k * h)) (int h) config (int (m * h))
        = enhance_loop rnd g ?a (int (k * h)) (int h) config (int (Suc m * h))"
    using lt ov
    by (subst enhance_loop.simps) (simp add: p a add.commute del: of_nat_mult of_nat_add flip: of_nat_add)
  have len: "length ?a = k * h"
    using le Suc.prems(1) by simp
  have ih: "enhance_loop rnd g ?a (int (k * h)) (int h) config (int (Suc m * h))
        = Some (Inr (take (Suc m * h) ?a @ map (?f ?a) [Suc m * h..<k * h], g))"
    using Suc.hyps(2) mk len by (intro Suc.hyps(1)) simp_all
  let ?pre = "take (m * h) activations @ map (?f activations) [m * h..<m * h + h]"
  have lp: "length ?pre = m * h + h"
    using lt Suc.prems(1) by simp
  have a_eq: "?a = ?pre @ drop (m * h + h) activations"
    by (simp add: add.commute)
  have t: "take (Suc m * h) ?a = ?pre"
    unfolding a_eq using lp by (simp add: add.commute)
  have r: "map (?f ?a) [Suc m * h..<k * h] = map (?f activations) [m * h + h..<k * h]"
  proof -
    have "?a ! j = activations ! j" if "m * h + h \<le> j" "j < k * h" for j
    proof -
      have "?a ! j = drop (m * h + h) activations ! (j - (m * h + h))"
        unfolding a_eq using that(1) lp by (simp only: nth_append) simp
      also have "\<dots> = activations ! j"
        using that le Suc.prems(1) by simp
      finally show ?thesis .
    qed
    then show ?thesis
      by (simp add: segment_dithered_def add.commute)
  qed
  have "[m * h..<k * h] = [m * h..<m * h + h] @ [m * h + h..<k * h]"
    using le by (metis le_add1 le_Suc_ex upt_add_eq_append)
  then show ?case
    unfolding step ih t r by simp
qed

lemma fixed_strength_engine_config:
  "g_dithering_initialized (fixed_strength_engine rnd)"
  "g_dithering_config (fixed_strength_engine rnd) = scenario_config True"
  by (simp_all add: fixed_strength_engine_def bitnet_set_dithering_config_def default_engine_enabled)

text \<open>
  \<^verbatim>\<open>bitnet_enhance_resolution_dithering\<close> returns on every input: the result is never \<open>None\<close>.
\<close>

lemma enhance_loop_returns_pos:
  assumes "0 < elements_per_token"
  shows "\<exists>r. enhance_loop rnd g activations size_n elements_per_token config i = Some r"
proof (induction "nat (size_n - i)" arbitrary: g activations i rule: less_induct)
  case less
  show ?case
  proof (cases "i < size_n")
    case False
    then show ?thesis by (subst enhance_loop.simps) simp
  next
    case True
    have "nat (size_n - (i + elements_per_token)) < nat (size_n - i)"
      using True assms by simp
    from less [OF this] show ?thesis
      by (subst enhance_loop.simps) (auto split: sum.splits prod.splits)
  qed
qed

lemma enhance_loop_returns_neg:
  assumes "elements_per_token < 0"
  shows "\<exists>r. enhance_loop rnd g activations size_n elements_per_token config i = Some r"
proof (induction "nat (i + 1)" arbitrary: g activations i rule: less_induct)
  case less
  show ?case
  proof (cases "0 \<le> i")
    case False
    then show ?thesis
      by (subst enhance_loop.simps) (simp add: ptr_add_def)
  next
    case True
    have "nat (i + elements_per_token + 1) < nat (i + 1)"
      using True assms by simp
    from less [OF this] show ?thesis
      by (subst enhance_loop.simps) (auto split: sum.splits prod.splits)
  qed
qed

lemma bitnet_enhance_resolution_dithering_returns:
  "\<exists>r. bitnet_enhance_resolution_dithering rnd g activations size_n sequence_length hidden_size = Some r"
  using enhance_loop_returns_pos [of hidden_size] enhance_loop_returns_neg [of hidden_size]
  by (cases "hidden_size = 0"; cases "0 < hidden_size")
     (simp_all add: bitnet_enhance_resolution_dithering_def Let_def)

text \<open>
  With dithering disabled in the configuration, every segment call returns at its guard
  and the loop hands the buffer back as it was.
\<close>

lemma enhance_loop_disabled:
  assumes "\<not> enable_dithering config" and "0 < h" and "int (k * h) \<le> INT_MAX"
    and "k * h \<le> length activations"
  shows "m \<le> k \<Longrightarrow>
     enhance_loop rnd g activations (int (k * h)) (int h) config (int (m * h))
       = Some (Inr (activations, g))"
proof (induction "k - m" arbitrary: m)
  case 0
  then have "m = k" by simp
  then show ?case
    by (simp add: enhance_loop.simps [of _ _ activations])
next
  case (Suc d)
  from Suc have mk: "m < k" by simp
  then have "Suc m \<le> k" by simp
  then have "Suc m * h \<le> k * h" by (rule mult_le_mono1)
  then have le: "m * h + h \<le> k * h" by (simp add: add.commute)
  have lt: "m * h < k * h" using mk assms(2) by simp
  have p: "ptr_add activations (int (m * h)) = Inr (drop (m * h) activations)"
  proof -
    have "m * h \<le> length activations" using lt assms(4) by linarith
    then show ?thesis by (simp add: ptr_add_def del: of_nat_mult)
  qed
  have a: "bitnet_apply_ordered_dithering rnd g (drop (m * h) activations) (int h) 0 (Some config)
       = Inr (drop (m * h) activations, g)"
    using assms(1) by (simp add: bitnet_apply_ordered_dithering_def)
  have ov: "\<not> (int (m * h) + int h < INT_MIN \<or> INT_MAX < int (m * h) + int h)"
    using le assms(3) by (simp add: INT_MIN_def del: of_nat_mult of_nat_add flip: of_nat_add)
  have step: "enhance_loop rnd g activations (int (k * h)) (int h) config (int (m * h))
        = enhance_loop rnd g activations (int (k * h)) (int h) config (int (Suc m * h))"
    using lt ov
    by (subst enhance_loop.simps)
       (simp add: p a add.commute del: of_nat_mult of_nat_add flip: of_nat_add)
  have "enhance_loop rnd g activations (int (k * h)) (int h) config (int (Suc m * h))
        = Some (Inr (activations, g))"
    using Suc.hyps(2) mk by (intro Suc.hyps(1)) simp_all
  with step show ?case by simp
qed

lemma disabled_engine_config:
  "g_dithering_initialized (disabled_engine rnd)"
  "resolution_enhancement (g_dithering_config (disabled_engine rnd))"
  "\<not> enable_dithering (g_dithering_config (disabled_engine rnd))"
  by (simp_all add: disabled_engine_def bitnet_set_dithering_config_def default_engine_enabled)

text \<open>
  Claim C5, as stated, fails. With \<open>size = 8\<close>, \<open>sequence_length = 2\<close>, \<open>hidden_size = 4\<close>,
  the engine initialised and resolution enhancement on: when the global configuration has
  dithering disabled, the buffer is not dithered at all; and with the default
  configuration (adaptive strength on) each segment of zeros receives the noise
  \<open>(BAYER_8X8[i] - 0.5) * 0.08\<close>, not \<open>(BAYER_8X8[i] - 0.5) * 0.05\<close>.
\<close>

theorem C5_counterexample:
  "bitnet_enhance_resolution_dithering exact (disabled_engine exact) [0, 0, 0, 0, 0, 0, 0, 0] 8 2 4
     = Some (Inr ([0, 0, 0, 0, 0, 0, 0, 0], disabled_engine exact))
   \<and> bitnet_enhance_resolution_dithering exact (default_engine exact) [0, 0, 0, 0, 0, 0, 0, 0] 8 2 4
     = Some (Inr ([- 1 / 25, 0, - 3 / 100, 1 / 100, - 1 / 25, 0, - 3 / 100, 1 / 100],
                  default_engine exact))"
  by (simp add: engine_eval exact_def disabled_engine_def bitnet_set_dithering_config_def)

text \<open>
  Claim C5, amended. Let the engine be initialised with resolution enhancement on, let
  \<open>hidden_size > 0\<close>, and let the buffer hold exactly \<open>size = sequence_length * hidden_size\<close>
  elements. If the global configuration has dithering enabled and adaptive strength off,
  \<^verbatim>\<open>bitnet_enhance_resolution_dithering\<close> dithers each contiguous segment of \<open>hidden_size\<close>
  elements on its own with strength \<open>0.05\<close> and the 8x8 pattern, the pattern index
  restarting at 0 at each segment boundary: element \<open>j\<close> receives the noise
  \<open>(BAYER_8X8[(j mod hidden_size) mod 64] - 0.5) * 0.05\<close>. If the global configuration has
  dithering disabled, the call leaves the buffer unchanged. Both hold under every rounding,
  and the engine state is returned as it was.
\<close>

theorem C5_segments:
  assumes "g_dithering_initialized g" and "resolution_enhancement (g_dithering_config g)"
    and "0 < h" and "length activations = k * h" and "int (k * h) \<le> INT_MAX"
  shows "(enable_dithering (g_dithering_config g) \<and> \<not> adaptive_strength (g_dithering_config g)
           \<longrightarrow> bitnet_enhance_resolution_dithering rnd g activations (int (k * h)) (int k) (int h)
               = Some (Inr (map (segment_dithered rnd h (rnd (5 / 100)) activations) [0..<k * h], g)))
       \<and> (\<not> enable_dithering (g_dithering_config g)
           \<longrightarrow> bitnet_enhance_resolution_dithering rnd g activations (int (k * h)) (int k) (int h)
               = Some (Inr (activations, g)))"
proof -
  let ?config = "(g_dithering_config g)\<lparr>dithering_strength := rnd (5 / 100), bayer_matrix_size := 8\<rparr>"
  have tokens: "c_div (int k * int h) (int h) = int k"
    using assms(3) by (simp add: c_div_nonneg)
  have run: "bitnet_enhance_resolution_dithering rnd g activations (int (k * h)) (int k) (int h)
      = enhance_loop rnd g activations (int (k * h)) (int h) ?config (int (0 * h))"
    using assms(1,2,3)
    by (simp add: bitnet_enhance_resolution_dithering_def Let_def tokens INT_MIN_def)
  have on: "enhance_loop rnd g activations (int (k * h)) (int h) ?config (int (0 * h))
     = Some (Inr (map (segment_dithered rnd h (rnd (5 / 100)) activations) [0..<k * h], g))"
    if "enable_dithering (g_dithering_config g)" "\<not> adaptive_strength (g_dithering_config g)"
    using enhance_loop_eq [of ?config h k activations 0 rnd g] that assms(3,4,5) by simp
  have off: "enhance_loop rnd g activations (int (k * h)) (int h) ?config (int (0 * h))
     = Some (Inr (activations, g))"
    if "\<not> enable_dithering (g_dithering_config g)"
    using enhance_loop_disabled [of ?config h k activations 0 rnd g] that assms(3,4,5) by simp
  show ?thesis
    unfolding run using on off by blast
qed

theorem C5_witness:
  "g_dithering_initialized (fixed_strength_engine exact)
   \<and> resolution_enhancement (g_dithering_config (fixed_strength_engine exact))
   \<and> enable_dithering (g_dithering_config (fixed_strength_engine exact))
   \<and> \<not> adaptive_strength (g_dithering_config (fixed_strength_engine exact))
   \<and> g_dithering_initialized (disabled_engine exact)
   \<and> resolution_enhancement (g_dithering_config (disabled_engine exact))
   \<and> \<not> enable_dithering (g_dithering_config (disabled_engine exact))
   \<and> 0 < (4 :: nat) \<and> length [0, 0, 0, 0, 0, 0, 0, 0 :: real] = 2 * 4 \<and> int (2 * 4) \<le> INT_MAX
   \<and> bitnet_enhance_resolution_dithering exact (fixed_strength_engine exact)
        [0, 0, 0, 0, 0, 0, 0, 0] (int (2 * 4)) (int 2) (int 4)
       = Some (Inr ([- 1 / 40, 0, - 3 / 160, 1 / 160, - 1 / 40, 0, - 3 / 160, 1 / 160],
                    fixed_strength_engine exact))
   \<and> bitnet_enhance_resolution_dithering exact (disabled_engine exact)
        [0, 0, 0, 0, 0, 0, 0, 0] (int (2 * 4)) (int 2) (int 4)
       = Some (Inr ([0, 0, 0, 0, 0, 0, 0, 0], disabled_engine exact))"
proof -
  have h1: "g_dithering_initialized (fixed_strength_engine exact)"
    and h2: "resolution_enhancement (g_dithering_config (fixed_strength_engine exact))"
    and h3: "enable_dithering (g_dithering_config (fixed_strength_engine exact))"
    and h4: "\<not> adaptive_strength (g_dithering_config (fixed_strength_engine exact))"
    by (simp_all add: fixed_strength_engine_config scenario_config_def)
  have d1: "g_dithering_initialized (disabled_engine exact)"
    and d2: "resolution_enhancement (g_dithering_config (disabled_engine exact))"
    and d3: "\<not> enable_dithering (g_dithering_config (disabled_engine exact))"
    by (simp_all add: disabled_engine_config)
  have h5: "0 < (4 :: nat)" by simp
  have h6: "length [0, 0, 0, 0, 0, 0, 0, 0 :: real] = 2 * 4" by simp
  have h7: "int (2 * 4) \<le> INT_MAX" by (simp add: INT_MAX_def)
  have v: "map (segment_dithered exact 4 (exact (5 / 100)) [0, 0, 0, 0, 0, 0, 0, 0]) [0..<2 * 4]
         = [- 1 / 40, 0, - 3 / 160, 1 / 160, - 1 / 40, 0, - 3 / 160, 1 / 160]"
    by (simp add: segment_dithered_def exact_def BAYER_8X8_def upt_conv_Cons)
  show ?thesis
    using h1 h2 h3 h4 d1 d2 d3 h5 h6 h7
      C5_segments [OF h1 h2 h5 h6 h7, of exact] C5_segments [OF d1 d2 h5 h6 h7, of exact]
    unfolding v by simp
qed

text \<open>
  Claim C6 does not hold of the code. The division \<open>size / hidden_size\<close> is not guarded, and
  the loop advances by full strides: with \<open>size = 5\<close>, \<open>sequence_length = 1\<close>,
  \<open>hidden_size = 4\<close> the quotient is 1, the second iteration starts at index 4 and handles 4
  elements of a buffer that has one element left. With adaptive strength on, the overrun
  is first a read (of the complexity estimator); with a fixed strength it is the read and
  write of \<open>data[1]\<close> of the second segment.
\<close>

theorem C6_overrun_and_division_by_zero:
  "bitnet_enhance_resolution_dithering exact (default_engine exact) [0, 0, 0, 0, 0] 5 1 4
     = Some (Inl OutOfBounds)
   \<and> bitnet_enhance_resolution_dithering float32 (default_engine float32) [0, 0, 0, 0, 0] 5 1 4
     = Some (Inl OutOfBounds)
   \<and> bitnet_enhance_resolution_dithering exact (fixed_strength_engine exact) [0, 0, 0, 0, 0] 5 1 4
     = Some (Inl OutOfBounds)
   \<and> bitnet_enhance_resolution_dithering rnd (default_engine rnd) activations size_n
        sequence_length 0
     = Some (Inl DivisionByZero)"
proof (intro conjI)
  show "bitnet_enhance_resolution_dithering exact (default_engine exact) [0, 0, 0, 0, 0] 5 1 4
     = Some (Inl OutOfBounds)"
    by (simp add: engine_eval exact_def)
  show "bitnet_enhance_resolution_dithering float32 (default_engine float32) [0, 0, 0, 0, 0] 5 1 4
     = Some (Inl OutOfBounds)"
    by (simp add: engine_eval float32_eval)
  show "bitnet_enhance_resolution_dithering exact (fixed_strength_engine exact) [0, 0, 0, 0, 0] 5 1 4
     = Some (Inl OutOfBounds)"
    by (simp add: engine_eval exact_def fixed_strength_engine_def bitnet_set_dithering_config_def)
  show "bitnet_enhance_resolution_dithering rnd (default_engine rnd) activations size_n
        sequence_length 0
     = Some (Inl DivisionByZero)"
    by (simp add: bitnet_enhance_resolution_dithering_def default_engine_enabled)
qed

theorem C6_witness:
  "g_dithering_initialized (default_engine exact)
   \<and> resolution_enhancement (g_dithering_config (default_engine exact))
   \<and> bitnet_enhance_resolution_dithering exact (default_engine exact) [0, 0, 0, 0, 0] 5 1 4
     = Some (Inl OutOfBounds)
   \<and> bitnet_enhance_resolution_dithering float32 (default_engine float32) [0, 0, 0, 0, 0] 5 1 4
     = Some (Inl OutOfBounds)
   \<and> bitnet_enhance_resolution_dithering exact (fixed_strength_engine exact) [0, 0, 0, 0, 0] 5 1 4
     = Some (Inl OutOfBounds)
   \<and> bitnet_enhance_resolution_dithering exact (default_engine exact) [0, 0, 0, 0, 0] 5 1 0
     = Some (Inl DivisionByZero)"
  using C6_overrun_and_division_by_zero [of exact "[0, 0, 0, 0, 0]" 5 1]
  by (simp add: default_engine_enabled)

end
